theory Spec2Isabelle
  imports Main
begin

section \<open>JavaScript primitives used by \<open>bin/index.js\<close>\<close>

text \<open>
  JavaScript strings are modelled as \<^typ>\<open>string\<close>. The two functions below only ever
  inspect three characters (slash, backslash, hyphen), so the width of a character does
  not matter. \<open>undefined\<close> is \<^term>\<open>None\<close>.
\<close>

abbreviation SLASH :: char where
  "SLASH \<equiv> CHR ''/''"

abbreviation BACKSLASH :: char where
  "BACKSLASH \<equiv> CHR 0x5C"

text \<open>
  \<open>String.prototype.split(sep)\<close> for a one-character separator: the pieces between
  the occurrences of the separator, empty pieces included. The result is never the empty
  array: \<open>''.split('/')\<close> is \<open>['']\<close>. (The first branch of the inner \<open>case\<close> only
  makes the definition total; \<open>split_js_not_Nil\<close> shows that it is never taken.)
\<close>

fun split_js :: "char \<Rightarrow> string \<Rightarrow> string list" where
  "split_js c [] = [[]]"
| "split_js c (x # xs) =
     (if x = c then [] # split_js c xs
      else (case split_js c xs of
              [] \<Rightarrow> [[x]]
            | y # ys \<Rightarrow> (x # y) # ys))"

text \<open>\<open>Array.prototype.join(sep)\<close> on an array of strings.\<close>

fun join_js :: "string \<Rightarrow> string list \<Rightarrow> string" where
  "join_js sep [] = []"
| "join_js sep [x] = x"
| "join_js sep (x # y # ys) = x @ sep @ join_js sep (y # ys)"

text \<open>\<open>String.prototype.replaceAll(a, b)\<close> for one-character \<open>a\<close> and \<open>b\<close>.\<close>

definition replaceAll_js :: "char \<Rightarrow> char \<Rightarrow> string \<Rightarrow> string" where
  "replaceAll_js a b s = map (\<lambda>c. if c = a then b else c) s"

text \<open>\<open>s.startsWith(p)\<close>.\<close>

definition startsWith :: "string \<Rightarrow> string \<Rightarrow> bool" where
  "startsWith s p = (take (length p) s = p)"

text \<open>\<open>xs.slice(-2)\<close>: the last two elements, or all of them when there are fewer.\<close>

definition slice_last2 :: "'a list \<Rightarrow> 'a list" where
  "slice_last2 xs = drop (length xs - 2) xs"

text \<open>
  The truthiness test \<open>if (outputRoot)\<close> on a value that is a string or \<open>undefined\<close>:
  \<open>undefined\<close> and the empty string are falsy, every other string is truthy.
\<close>

definition truthy :: "string option \<Rightarrow> bool" where
  "truthy v = (case v of None \<Rightarrow> False | Some s \<Rightarrow> s \<noteq> [])"

section \<open>Node's \<open>path.join\<close> (POSIX flavour)\<close>

text \<open>
  The directory is computed with \<open>path.join\<close> of Node's standard library
  (\<open>node:path\<close>), which is not code of the repository. It is modelled in its POSIX form,
  as Node documents it: the non-empty arguments are joined with a slash and the result is
  normalised. Normalisation works on the pieces between slashes: empty and \<open>.\<close> pieces
  disappear; a \<open>..\<close> piece removes the piece before it, or stays when there is none to
  remove and the path is relative; a trailing slash is kept; a leading slash is kept; an
  empty result is written \<open>.\<close>. So \<open>path.join('./output', 'code')\<close> is \<open>output/code\<close>.
  (On Windows the same function joins with backslashes.)
\<close>

fun normalizeStep :: "bool \<Rightarrow> string list \<Rightarrow> string \<Rightarrow> string list" where
  "normalizeStep allowAboveRoot res seg =
     (if seg = [] \<or> seg = ''.'' then res
      else if seg = ''..'' then
        (if res \<noteq> [] \<and> last res \<noteq> ''..'' then butlast res
         else if allowAboveRoot then res @ [''..'']
         else res)
      else res @ [seg])"

definition normalizeString :: "string \<Rightarrow> bool \<Rightarrow> string" where
  "normalizeString p allowAboveRoot =
     join_js ''/'' (foldl (normalizeStep allowAboveRoot) [] (split_js SLASH p))"

definition path_normalize :: "string \<Rightarrow> string" where
  "path_normalize p =
     (if p = [] then ''.''
      else
        (let isAbsolute = (hd p = SLASH);
             trailingSeparator = (last p = SLASH);
             q = normalizeString p (\<not> isAbsolute)
         in if q = [] then
              (if isAbsolute then ''/'' else if trailingSeparator then ''./'' else ''.'')
            else
              (let q' = (if trailingSeparator then q @ ''/'' else q)
               in if isAbsolute then SLASH # q' else q')))"

definition path_join :: "string \<Rightarrow> string \<Rightarrow> string" where
  "path_join a b =
     (let args = filter (\<lambda>s. s \<noteq> []) [a, b]
      in if args = [] then ''.'' else path_normalize (join_js ''/'' args))"

section \<open>The output root of a documentation path\<close>

definition DOC_CONTAINER_NAMES :: "string set" where
  "DOC_CONTAINER_NAMES = {''doc'', ''docs'', ''documentation''}"

text \<open>\<open>documentPath.split('/').filter(Boolean)\<close>\<close>

definition segments_of :: "string \<Rightarrow> string list" where
  "segments_of documentPath = filter (\<lambda>s. s \<noteq> []) (split_js SLASH documentPath)"

text \<open>
  \<open>computeOutputRoot\<close>. \<open>segments[0]\<close> of an empty array is \<open>undefined\<close>, which is not
  in the set of container names.
\<close>

definition computeOutputRoot :: "string \<Rightarrow> string option" where
  "computeOutputRoot documentPath =
     (let segments = segments_of documentPath
      in if length segments = 1 then
           (if hd segments \<in> DOC_CONTAINER_NAMES then None else Some (hd segments))
         else
           (let effectiveSegments =
                  (if segments \<noteq> [] \<and> hd segments \<in> DOC_CONTAINER_NAMES
                   then drop 1 segments else segments)
            in if length effectiveSegments = 1 then Some (hd effectiveSegments)
               else Some (join_js ''-'' (slice_last2 effectiveSegments))))"

section \<open>The output location of a file\<close>

record OutputLocation =
  directory :: string
  filename :: string

datatype js_error = TypeError

text \<open>The relative path: the file path with backslashes normalised and the prefix stripped.\<close>

definition normalizedOf :: "string \<Rightarrow> string" where
  "normalizedOf filePath = replaceAll_js BACKSLASH SLASH filePath"

definition relativePathOf :: "string \<Rightarrow> string \<Rightarrow> string" where
  "relativePathOf filePath documentPath =
     (let normalized = normalizedOf filePath
      in if startsWith normalized (documentPath @ ''/'')
         then drop (length documentPath + 1) normalized
         else normalized)"

text \<open>The list \<open>prefixParts\<close> after the two conditional pushes.\<close>

definition prefixPartsOf :: "string option \<Rightarrow> string list \<Rightarrow> string list" where
  "prefixPartsOf outputRoot parts =
     (let prefixParts = (case outputRoot of
                           None \<Rightarrow> []
                         | Some r \<Rightarrow> if r \<noteq> [] then [r] else [])
      in if parts \<noteq> [] \<and> \<not> (truthy outputRoot \<and> Some (hd parts) = outputRoot)
         then prefixParts @ parts
         else prefixParts)"

definition folderPrefixOf :: "string list \<Rightarrow> string" where
  "folderPrefixOf prefixParts =
     (if prefixParts \<noteq> [] then join_js ''-'' prefixParts @ ''-'' else [])"

definition finalFilenameOf :: "string \<Rightarrow> string \<Rightarrow> string" where
  "finalFilenameOf folderPrefix fname =
     (if startsWith fname folderPrefix then fname else folderPrefix @ fname)"

definition directoryOf :: "string option \<Rightarrow> string \<Rightarrow> string" where
  "directoryOf outputRoot outputDirectory =
     (case outputRoot of
        None \<Rightarrow> outputDirectory
      | Some r \<Rightarrow> if r \<noteq> [] then path_join outputDirectory r else outputDirectory)"

text \<open>
  \<open>buildOutputLocation\<close>. \<open>parts.pop()\<close> of an empty array would be \<open>undefined\<close>, and
  \<open>undefined.startsWith\<close> raises a \<open>TypeError\<close>: that is the one way the function can
  raise, and it is a branch of the model.
\<close>

definition buildOutputLocation ::
  "string \<Rightarrow> string \<Rightarrow> string option \<Rightarrow> string \<Rightarrow> js_error + OutputLocation" where
  "buildOutputLocation filePath documentPath outputRoot outputDirectory =
     (let relativePath = relativePathOf filePath documentPath;
          allParts = split_js SLASH relativePath
      in case allParts of
           [] \<Rightarrow> Inl TypeError
         | _ # _ \<Rightarrow>
             (let fname = last allParts;
                  parts = butlast allParts;
                  folderPrefix = folderPrefixOf (prefixPartsOf outputRoot parts)
              in Inr \<lparr>directory = directoryOf outputRoot outputDirectory,
                      filename = finalFilenameOf folderPrefix fname\<rparr>))"

text \<open>
  Names for two values of a call of \<open>buildOutputLocation\<close>: the array \<open>parts\<close> after
  \<open>parts.pop()\<close> (the folder parts of the relative path) and the popped \<open>filename\<close>
  (the base filename).
\<close>

definition folderPartsOf :: "string \<Rightarrow> string \<Rightarrow> string list" where
  "folderPartsOf filePath documentPath =
     butlast (split_js SLASH (relativePathOf filePath documentPath))"

definition baseFilenameOf :: "string \<Rightarrow> string \<Rightarrow> string" where
  "baseFilenameOf filePath documentPath =
     last (split_js SLASH (relativePathOf filePath documentPath))"

text \<open>A string without a path separator: neither a slash nor a backslash.\<close>

definition no_separator :: "string \<Rightarrow> bool" where
  "no_separator s = (SLASH \<notin> set s \<and> BACKSLASH \<notin> set s)"

section \<open>Splitting and segmentation\<close>

lemma split_js_not_Nil: "split_js c s \<noteq> []"
  by (induction s) (auto split: list.splits)

lemma split_js_append_sep:
  "split_js c (a @ c # b) = split_js c a @ split_js c b"
proof (induction a)
  case Nil
  show ?case by simp
next
  case (Cons x a)
  obtain y ys where "split_js c a = y # ys"
    using split_js_not_Nil [of c a] by (cases "split_js c a") auto
  with Cons show ?case by simp
qed

lemma split_js_no_sep: "c \<notin> set s \<Longrightarrow> split_js c s = [s]"
  by (induction s) auto

lemma split_js_pieces_no_sep: "x \<in> set (split_js c s) \<Longrightarrow> c \<notin> set x"
  by (induction s arbitrary: x) (auto split: if_splits list.splits)

lemma segments_of_Nil: "segments_of [] = []"
  by (simp add: segments_of_def)

lemma segments_of_append_slash:
  "segments_of (a @ SLASH # b) = segments_of a @ segments_of b"
  by (simp add: segments_of_def split_js_append_sep)

lemma segments_of_leading: "segments_of (replicate n SLASH @ p) = segments_of p"
proof (induction n)
  case 0
  show ?case by simp
next
  case (Suc n)
  have "segments_of (replicate (Suc n) SLASH @ p) = segments_of ([] @ SLASH # (replicate n SLASH @ p))"
    by simp
  also have "\<dots> = segments_of [] @ segments_of (replicate n SLASH @ p)"
    by (rule segments_of_append_slash)
  finally show ?case using Suc by (simp add: segments_of_Nil)
qed

lemma segments_of_trailing: "segments_of (p @ replicate n SLASH) = segments_of p"
proof (induction n)
  case 0
  show ?case by simp
next
  case (Suc n)
  have "segments_of (p @ replicate (Suc n) SLASH) = segments_of (p @ SLASH # replicate n SLASH)"
    by simp
  also have "\<dots> = segments_of p @ segments_of (replicate n SLASH)"
    by (rule segments_of_append_slash)
  also have "segments_of (replicate n SLASH) = []"
    using segments_of_leading [of n "[]"] by (simp add: segments_of_Nil)
  finally show ?case by simp
qed

lemma segments_of_repeated:
  "segments_of (a @ SLASH # replicate n SLASH @ b) = segments_of (a @ SLASH # b)"
  by (simp add: segments_of_append_slash segments_of_leading)

lemma computeOutputRoot_segments:
  "segments_of p = segments_of q \<Longrightarrow> computeOutputRoot p = computeOutputRoot q"
  by (simp add: computeOutputRoot_def)

text \<open>
  Claim C7. The output root does not change when slashes are added in front of the
  documentation path, added behind it, or repeated between two parts of it; in particular
  \<open>//docs/code//\<close> and \<open>docs//code\<close> give the output root of \<open>docs/code\<close>.
\<close>

theorem computeOutputRoot_separator_insensitive:
  "computeOutputRoot (replicate n SLASH @ p) = computeOutputRoot p \<and>
   computeOutputRoot (p @ replicate n SLASH) = computeOutputRoot p \<and>
   computeOutputRoot (a @ SLASH # replicate n SLASH @ b) = computeOutputRoot (a @ SLASH # b) \<and>
   computeOutputRoot (replicate m SLASH @ a @ SLASH # replicate n SLASH @ b @ replicate k SLASH)
     = computeOutputRoot (a @ SLASH # b) \<and>
   computeOutputRoot ''//docs/code//'' = computeOutputRoot ''docs/code'' \<and>
   computeOutputRoot ''docs//code'' = computeOutputRoot ''docs/code''"
proof -
  have 1: "computeOutputRoot (replicate n SLASH @ p) = computeOutputRoot p"
    by (rule computeOutputRoot_segments) (rule segments_of_leading)
  have 2: "computeOutputRoot (p @ replicate n SLASH) = computeOutputRoot p"
    by (rule computeOutputRoot_segments) (rule segments_of_trailing)
  have 3: "computeOutputRoot (a @ SLASH # replicate n SLASH @ b) = computeOutputRoot (a @ SLASH # b)"
    by (rule computeOutputRoot_segments) (rule segments_of_repeated)
  have "segments_of (replicate m SLASH @ a @ SLASH # replicate n SLASH @ b @ replicate k SLASH)
        = segments_of (a @ SLASH # b)"
    using segments_of_trailing [of b k]
    by (simp add: segments_of_leading segments_of_append_slash)
  then have 4: "computeOutputRoot (replicate m SLASH @ a @ SLASH # replicate n SLASH @ b @ replicate k SLASH)
     = computeOutputRoot (a @ SLASH # b)"
    by (rule computeOutputRoot_segments)
  have 5: "computeOutputRoot ''//docs/code//'' = computeOutputRoot ''docs/code''"
    by (simp add: computeOutputRoot_def segments_of_def)
  have 6: "computeOutputRoot ''docs//code'' = computeOutputRoot ''docs/code''"
    by (simp add: computeOutputRoot_def segments_of_def)
  from 1 2 3 4 5 6 show ?thesis by blast
qed

section \<open>The algorithm of \<open>computeOutputRoot\<close>\<close>

lemma slice_last2_two: "slice_last2 (pre @ [a, b]) = [a, b]"
  by (simp add: slice_last2_def)

lemma computeOutputRoot_single:
  "segments_of p = [s] \<Longrightarrow>
     computeOutputRoot p = (if s \<in> DOC_CONTAINER_NAMES then None else Some s)"
  by (simp add: computeOutputRoot_def)

lemma computeOutputRoot_container_one:
  "segments_of p = [c, s] \<Longrightarrow> c \<in> DOC_CONTAINER_NAMES \<Longrightarrow> computeOutputRoot p = Some s"
  by (simp add: computeOutputRoot_def)

lemma computeOutputRoot_container_many:
  "segments_of p = c # pre @ [a, b] \<Longrightarrow> c \<in> DOC_CONTAINER_NAMES \<Longrightarrow>
     computeOutputRoot p = Some (a @ ''-'' @ b)"
  by (simp add: computeOutputRoot_def slice_last2_two)

lemma computeOutputRoot_plain_many:
  "segments_of p = pre @ [a, b] \<Longrightarrow> hd (pre @ [a, b]) \<notin> DOC_CONTAINER_NAMES \<Longrightarrow>
     computeOutputRoot p = Some (a @ ''-'' @ b)"
  by (simp add: computeOutputRoot_def slice_last2_two)

text \<open>
  The cases of the theorem below are exhaustive: a non-empty list of segments has one of
  these shapes.
\<close>

lemma last_two_shape:
  "2 \<le> length xs \<Longrightarrow> \<exists>pre a b. xs = pre @ [a, b]"
proof -
  assume len: "2 \<le> length xs"
  then have "xs \<noteq> []" by auto
  then have 1: "xs = butlast xs @ [last xs]" by simp
  from len have "butlast xs \<noteq> []" by (cases xs) auto
  then have 2: "butlast xs = butlast (butlast xs) @ [last (butlast xs)]" by simp
  from 1 2 have "xs = butlast (butlast xs) @ [last (butlast xs), last xs]"
    by (metis append_Cons append_Nil append_assoc)
  then show ?thesis by blast
qed

lemma segments_shapes:
  "xs \<noteq> [] \<Longrightarrow>
     (\<exists>s. xs = [s]) \<or> (\<exists>c s. xs = [c, s] \<and> c \<in> DOC_CONTAINER_NAMES) \<or>
     (\<exists>c pre a b. xs = c # pre @ [a, b] \<and> c \<in> DOC_CONTAINER_NAMES) \<or>
     (\<exists>pre a b. xs = pre @ [a, b] \<and> hd (pre @ [a, b]) \<notin> DOC_CONTAINER_NAMES)"
proof (cases xs)
  case Nil
  assume "xs \<noteq> []"
  with Nil show ?thesis by simp
next
  case (Cons c ys)
  show ?thesis
  proof (cases "ys = []")
    case True
    with Cons show ?thesis by simp
  next
    case False
    show ?thesis
    proof (cases "c \<in> DOC_CONTAINER_NAMES")
      case True
      show ?thesis
      proof (cases "length ys = 1")
        case True
        then obtain s where "ys = [s]" by (cases ys) auto
        with Cons \<open>c \<in> DOC_CONTAINER_NAMES\<close> show ?thesis by simp
      next
        case False
        moreover have "length ys \<noteq> 0" using \<open>ys \<noteq> []\<close> by simp
        ultimately have "2 \<le> length ys" by arith
        then obtain pre a b where "ys = pre @ [a, b]" using last_two_shape by blast
        with Cons \<open>c \<in> DOC_CONTAINER_NAMES\<close> show ?thesis by blast
      qed
    next
      case False
      from \<open>ys \<noteq> []\<close> Cons have "2 \<le> length xs" by (cases ys) auto
      then obtain pre a b where "xs = pre @ [a, b]" using last_two_shape by blast
      with Cons False show ?thesis by (metis list.sel(1))
    qed
  qed
qed

text \<open>
  Claim C1. \<open>computeOutputRoot\<close> follows the documented algorithm on the segments of the
  documentation path (the non-empty pieces between slashes). One segment: a container
  name (\<open>doc\<close>, \<open>docs\<close>, \<open>documentation\<close>, compared case-sensitively) gives no output
  root, any other segment is the output root. Two or more segments: a leading container
  name is dropped; a single remaining segment is the output root; otherwise the output
  root is the last two remaining segments joined by one hyphen, in their order. The
  documented examples hold literally.
\<close>

theorem computeOutputRoot_algorithm:
  "(segments_of p = [s] \<and> s \<in> {''doc'', ''docs'', ''documentation''}
      \<longrightarrow> computeOutputRoot p = None) \<and>
   (segments_of p = [s] \<and> s \<notin> {''doc'', ''docs'', ''documentation''}
      \<longrightarrow> computeOutputRoot p = Some s) \<and>
   (segments_of p = [c, s] \<and> c \<in> {''doc'', ''docs'', ''documentation''}
      \<longrightarrow> computeOutputRoot p = Some s) \<and>
   (segments_of p = c # pre @ [a, b] \<and> c \<in> {''doc'', ''docs'', ''documentation''}
      \<longrightarrow> computeOutputRoot p = Some (a @ ''-'' @ b)) \<and>
   (segments_of p = pre @ [a, b] \<and> hd (pre @ [a, b]) \<notin> {''doc'', ''docs'', ''documentation''}
      \<longrightarrow> computeOutputRoot p = Some (a @ ''-'' @ b)) \<and>
   computeOutputRoot ''docs'' = None \<and>
   computeOutputRoot ''docs/code'' = Some ''code'' \<and>
   computeOutputRoot ''docs/code/docs'' = Some ''code-docs'' \<and>
   computeOutputRoot ''packages/react/docs'' = Some ''react-docs'' \<and>
   computeOutputRoot ''react/three/docs'' = Some ''three-docs'' \<and>
   computeOutputRoot ''react/three/docs/v1'' = Some ''docs-v1'' \<and>
   computeOutputRoot ''examples/with-mdx'' = Some ''examples-with-mdx'' \<and>
   computeOutputRoot ''help'' = Some ''help''"
proof -
  have D: "DOC_CONTAINER_NAMES = {''doc'', ''docs'', ''documentation''}"
    by (rule DOC_CONTAINER_NAMES_def)
  have 1: "segments_of p = [s] \<and> s \<in> {''doc'', ''docs'', ''documentation''}
      \<longrightarrow> computeOutputRoot p = None"
    using computeOutputRoot_single [of p s] unfolding D by simp
  have 2: "segments_of p = [s] \<and> s \<notin> {''doc'', ''docs'', ''documentation''}
      \<longrightarrow> computeOutputRoot p = Some s"
    using computeOutputRoot_single [of p s] unfolding D by simp
  have 3: "segments_of p = [c, s] \<and> c \<in> {''doc'', ''docs'', ''documentation''}
      \<longrightarrow> computeOutputRoot p = Some s"
    using computeOutputRoot_container_one [of p c s] unfolding D by blast
  have 4: "segments_of p = c # pre @ [a, b] \<and> c \<in> {''doc'', ''docs'', ''documentation''}
      \<longrightarrow> computeOutputRoot p = Some (a @ ''-'' @ b)"
    using computeOutputRoot_container_many [of p c pre a b] unfolding D by blast
  have 5: "segments_of p = pre @ [a, b] \<and> hd (pre @ [a, b]) \<notin> {''doc'', ''docs'', ''documentation''}
      \<longrightarrow> computeOutputRoot p = Some (a @ ''-'' @ b)"
    using computeOutputRoot_plain_many [of p pre a b] unfolding D by blast
  have 6: "computeOutputRoot ''docs'' = None"
    by (simp add: computeOutputRoot_def segments_of_def D)
  have 7: "computeOutputRoot ''docs/code'' = Some ''code''"
    by (simp add: computeOutputRoot_def segments_of_def D)
  have 8: "computeOutputRoot ''docs/code/docs'' = Some ''code-docs''"
    by (simp add: computeOutputRoot_def segments_of_def D slice_last2_def)
  have 9: "computeOutputRoot ''packages/react/docs'' = Some ''react-docs''"
    by (simp add: computeOutputRoot_def segments_of_def D slice_last2_def)
  have 10: "computeOutputRoot ''react/three/docs'' = Some ''three-docs''"
    by (simp add: computeOutputRoot_def segments_of_def D slice_last2_def)
  have 11: "computeOutputRoot ''react/three/docs/v1'' = Some ''docs-v1''"
    by (simp add: computeOutputRoot_def segments_of_def D slice_last2_def)
  have 12: "computeOutputRoot ''examples/with-mdx'' = Some ''examples-with-mdx''"
    by (simp add: computeOutputRoot_def segments_of_def D slice_last2_def)
  have 13: "computeOutputRoot ''help'' = Some ''help''"
    by (simp add: computeOutputRoot_def segments_of_def D)
  from 1 2 3 4 5 6 7 8 9 10 11 12 13 show ?thesis by blast
qed

theorem computeOutputRoot_algorithm_witness:
  "computeOutputRoot ''documentation'' = None \<and>
   computeOutputRoot ''Docs'' = Some ''Docs'' \<and>
   computeOutputRoot ''/api/'' = Some ''api'' \<and>
   computeOutputRoot ''doc/reference'' = Some ''reference'' \<and>
   computeOutputRoot ''docs/api/v1/x'' = Some ''v1-x'' \<and>
   computeOutputRoot ''a/b/docs'' = Some ''b-docs''"
proof -
  have 1: "computeOutputRoot ''documentation'' = None"
    using computeOutputRoot_algorithm [of "''documentation''" "''documentation''"]
    by (simp add: segments_of_def)
  have 6: "computeOutputRoot ''Docs'' = Some ''Docs''"
    using computeOutputRoot_algorithm [of "''Docs''" "''Docs''"]
    by (simp add: segments_of_def)
  have 2: "computeOutputRoot ''/api/'' = Some ''api''"
    using computeOutputRoot_algorithm [of "''/api/''" "''api''"]
    by (simp add: segments_of_def)
  have 3: "computeOutputRoot ''doc/reference'' = Some ''reference''"
    using computeOutputRoot_algorithm [of "''doc/reference''" "''reference''" "''doc''"]
    by (simp add: segments_of_def)
  have 4: "computeOutputRoot ''docs/api/v1/x'' = Some ''v1-x''"
    using computeOutputRoot_algorithm [of "''docs/api/v1/x''" _ "''docs''" "[''api'']" "''v1''" "''x''"]
    by (simp add: segments_of_def)
  have 5: "computeOutputRoot ''a/b/docs'' = Some ''b-docs''"
    using computeOutputRoot_algorithm [of "''a/b/docs''" _ _ "[''a'']" "''b''" "''docs''"]
    by (simp add: segments_of_def)
  from 1 2 3 4 5 6 show ?thesis by blast
qed

section \<open>Backslashes in a documentation path\<close>

lemma backslash_not_container: "BACKSLASH \<in> set p \<Longrightarrow> p \<notin> DOC_CONTAINER_NAMES"
  by (auto simp: DOC_CONTAINER_NAMES_def)

lemma segments_of_no_slash: "SLASH \<notin> set p \<Longrightarrow> p \<noteq> [] \<Longrightarrow> segments_of p = [p]"
  by (simp add: segments_of_def split_js_no_sep)

text \<open>
  Claim C6, as stated, fails: \<open>computeOutputRoot\<close> splits the documentation path on the
  slash only, so the backslash-delimited path is one segment and the two output roots
  differ.
\<close>

theorem computeOutputRoot_backslash_counterexample:
  "computeOutputRoot (''docs'' @ [BACKSLASH] @ ''code'') \<noteq> computeOutputRoot ''docs/code''"
  by (simp add: computeOutputRoot_def segments_of_def DOC_CONTAINER_NAMES_def)

text \<open>
  Claim C6, amended. \<open>computeOutputRoot\<close> treats only the slash as a separator; a
  backslash is an ordinary character of its segment. A path with a backslash and no slash
  is a single segment and is returned verbatim: the output root of \<open>docs\code\<close>
  (backslash-delimited) is that whole string, while the output root of \<open>docs/code\<close> is
  \<open>code\<close>.
\<close>

theorem computeOutputRoot_backslash_kept:
  "(SLASH \<notin> set a \<and> SLASH \<notin> set b \<longrightarrow>
      segments_of (a @ BACKSLASH # b) = [a @ BACKSLASH # b] \<and>
      computeOutputRoot (a @ BACKSLASH # b) = Some (a @ BACKSLASH # b)) \<and>
   computeOutputRoot (''docs'' @ [BACKSLASH] @ ''code'') = Some (''docs'' @ [BACKSLASH] @ ''code'') \<and>
   computeOutputRoot ''docs/code'' = Some ''code''"
proof -
  have 1: "SLASH \<notin> set a \<and> SLASH \<notin> set b \<longrightarrow>
      segments_of (a @ BACKSLASH # b) = [a @ BACKSLASH # b] \<and>
      computeOutputRoot (a @ BACKSLASH # b) = Some (a @ BACKSLASH # b)"
  proof
    assume h: "SLASH \<notin> set a \<and> SLASH \<notin> set b"
    then have "SLASH \<notin> set (a @ BACKSLASH # b)" by simp
    then have s: "segments_of (a @ BACKSLASH # b) = [a @ BACKSLASH # b]"
      by (rule segments_of_no_slash) simp
    have "a @ BACKSLASH # b \<notin> DOC_CONTAINER_NAMES"
      by (rule backslash_not_container) simp
    with s show "segments_of (a @ BACKSLASH # b) = [a @ BACKSLASH # b] \<and>
      computeOutputRoot (a @ BACKSLASH # b) = Some (a @ BACKSLASH # b)"
      by (simp add: computeOutputRoot_single)
  qed
  have 2: "computeOutputRoot (''docs'' @ [BACKSLASH] @ ''code'') = Some (''docs'' @ [BACKSLASH] @ ''code'')"
    by (simp add: computeOutputRoot_def segments_of_def DOC_CONTAINER_NAMES_def)
  have 3: "computeOutputRoot ''docs/code'' = Some ''code''"
    by (simp add: computeOutputRoot_def segments_of_def DOC_CONTAINER_NAMES_def)
  from 1 2 3 show ?thesis by blast
qed

theorem computeOutputRoot_backslash_kept_witness:
  "segments_of (''packages'' @ BACKSLASH # ''react'') = [''packages'' @ BACKSLASH # ''react''] \<and>
   computeOutputRoot (''packages'' @ BACKSLASH # ''react'') = Some (''packages'' @ BACKSLASH # ''react'')"
  using computeOutputRoot_backslash_kept [of "''packages''" "''react''"] by simp

section \<open>No segments at all\<close>

lemma concat_split_js: "concat (split_js c s) = filter (\<lambda>x. x \<noteq> c) s"
  by (induction s) (auto split: list.splits)

lemma segments_of_empty_iff: "segments_of p = [] \<longleftrightarrow> set p \<subseteq> {SLASH}"
proof
  assume "segments_of p = []"
  then have "\<forall>x \<in> set (split_js SLASH p). x = []"
    by (auto simp: segments_of_def filter_empty_conv)
  then have "concat (split_js SLASH p) = []" by simp
  then have "filter (\<lambda>x. x \<noteq> SLASH) p = []" by (simp add: concat_split_js)
  then show "set p \<subseteq> {SLASH}" by (auto simp: filter_empty_conv)
next
  assume "set p \<subseteq> {SLASH}"
  then have "p = replicate (length p) SLASH"
    by (induction p) auto
  then have "segments_of p = segments_of (replicate (length p) SLASH @ [])" by simp
  also have "\<dots> = segments_of []" by (rule segments_of_leading)
  finally show "segments_of p = []" by (simp add: segments_of_Nil)
qed

text \<open>
  Claim C9, as stated, fails: for the empty path and for a path of slashes only,
  \<open>computeOutputRoot\<close> returns a string (the empty one), not \<open>undefined\<close>.
\<close>

theorem computeOutputRoot_empty_counterexample:
  "computeOutputRoot [] \<noteq> None \<and> computeOutputRoot ''//'' \<noteq> None"
  by (simp add: computeOutputRoot_def segments_of_def slice_last2_def)

text \<open>
  Claim C9, amended. For a documentation path that is empty or consists only of slashes
  (no segment at all), \<open>computeOutputRoot\<close> returns the empty string: the join of the
  empty list of segments. It does not raise.
\<close>

theorem computeOutputRoot_no_segments:
  "(set p \<subseteq> {SLASH} \<longrightarrow> segments_of p = [] \<and> computeOutputRoot p = Some []) \<and>
   (segments_of p = [] \<longrightarrow> computeOutputRoot p = Some [])"
proof -
  have 2: "segments_of p = [] \<longrightarrow> computeOutputRoot p = Some []"
    by (simp add: computeOutputRoot_def slice_last2_def)
  have 1: "set p \<subseteq> {SLASH} \<longrightarrow> segments_of p = [] \<and> computeOutputRoot p = Some []"
    using 2 segments_of_empty_iff [of p] by blast
  from 1 2 show ?thesis by blast
qed

theorem computeOutputRoot_no_segments_witness:
  "computeOutputRoot [] = Some [] \<and> computeOutputRoot ''///'' = Some []"
proof -
  have 1: "computeOutputRoot [] = Some []"
    using computeOutputRoot_no_segments [of "[]"] by simp
  have 2: "computeOutputRoot ''///'' = Some []"
    using computeOutputRoot_no_segments [of "''///''"] by simp
  from 1 2 show ?thesis by blast
qed

section \<open>\<open>buildOutputLocation\<close> never raises\<close>

lemma buildOutputLocation_eq:
  "buildOutputLocation filePath documentPath outputRoot outputDirectory =
     Inr \<lparr>directory = directoryOf outputRoot outputDirectory,
          filename = finalFilenameOf
                       (folderPrefixOf (prefixPartsOf outputRoot (folderPartsOf filePath documentPath)))
                       (baseFilenameOf filePath documentPath)\<rparr>"
proof -
  obtain y ys where "split_js SLASH (relativePathOf filePath documentPath) = y # ys"
    using split_js_not_Nil [of SLASH "relativePathOf filePath documentPath"]
    by (cases "split_js SLASH (relativePathOf filePath documentPath)") auto
  then show ?thesis
    by (simp add: buildOutputLocation_def folderPartsOf_def baseFilenameOf_def Let_def)
qed

lemma prefixPartsOf_empty_root: "prefixPartsOf (Some []) parts = prefixPartsOf None parts"
  by (simp add: prefixPartsOf_def truthy_def)

lemma directoryOf_empty_root: "directoryOf (Some []) out = directoryOf None out"
  by (simp add: directoryOf_def)

lemma prefixPartsOf_None: "prefixPartsOf None parts = parts"
  by (simp add: prefixPartsOf_def truthy_def)

text \<open>
  Claim C10. The empty string as output root gives exactly the output location of an
  absent output root, directory and filename, for every file path, documentation path
  and base output directory: the directory is the base output directory, and only the
  folder parts prefix the filename.
\<close>

theorem buildOutputLocation_empty_root_is_absent:
  "buildOutputLocation filePath documentPath (Some []) outputDirectory
     = buildOutputLocation filePath documentPath None outputDirectory \<and>
   buildOutputLocation filePath documentPath None outputDirectory
     = Inr \<lparr>directory = outputDirectory,
            filename = finalFilenameOf (folderPrefixOf (folderPartsOf filePath documentPath))
                         (baseFilenameOf filePath documentPath)\<rparr>"
  by (simp add: buildOutputLocation_eq prefixPartsOf_empty_root directoryOf_empty_root
        prefixPartsOf_None directoryOf_def)

section \<open>The fallback for a file outside its documentation path\<close>

lemma relativePathOf_fallback:
  "\<not> startsWith (normalizedOf filePath) (documentPath @ ''/'') \<Longrightarrow>
     relativePathOf filePath documentPath = normalizedOf filePath"
  by (simp add: relativePathOf_def)

lemma prefixPartsOf_first_is_root:
  "r \<noteq> [] \<Longrightarrow> parts \<noteq> [] \<Longrightarrow> hd parts = r \<Longrightarrow> prefixPartsOf (Some r) parts = [r]"
  by (simp add: prefixPartsOf_def truthy_def)

lemma prefixPartsOf_first_not_root:
  "r \<noteq> [] \<Longrightarrow> parts \<noteq> [] \<Longrightarrow> hd parts \<noteq> r \<Longrightarrow> prefixPartsOf (Some r) parts = r # parts"
  by (simp add: prefixPartsOf_def truthy_def)

lemma normalizedOf_map:
  "normalizedOf filePath = map (\<lambda>c. if c = BACKSLASH then SLASH else c) filePath"
  by (simp add: normalizedOf_def replaceAll_js_def)

lemma prefixPartsOf_falsy: "\<not> truthy outputRoot \<Longrightarrow> prefixPartsOf outputRoot parts = parts"
  by (auto simp: prefixPartsOf_def truthy_def split: option.splits)

lemma prefixPartsOf_no_parts: "r \<noteq> [] \<Longrightarrow> prefixPartsOf (Some r) [] = [r]"
  by (simp add: prefixPartsOf_def)

lemma directoryOf_falsy: "\<not> truthy outputRoot \<Longrightarrow> directoryOf outputRoot out = out"
  by (auto simp: directoryOf_def truthy_def split: option.splits)

text \<open>
  Claim C8. When the file path, with every backslash turned into a slash, does not
  start with the documentation path followed by a slash, the relative path is that whole
  normalised path, and \<open>buildOutputLocation\<close> still returns a location: the full
  normalised path is flattened into the filename. Its pieces between slashes, all but the
  last, are the folder parts, and the last is the base filename; the filename is the base
  filename behind the hyphen-joined prefix of the output root (when present) and the
  folder parts (unless the first of them is the output root), or the base filename alone
  when it already starts with that prefix.
\<close>

theorem buildOutputLocation_fallback:
  assumes "\<not> startsWith (map (\<lambda>c. if c = BACKSLASH then SLASH else c) filePath)
                          (documentPath @ ''/'')"
  shows "relativePathOf filePath documentPath
           = map (\<lambda>c. if c = BACKSLASH then SLASH else c) filePath \<and>
         folderPartsOf filePath documentPath
           = butlast (split_js SLASH (map (\<lambda>c. if c = BACKSLASH then SLASH else c) filePath)) \<and>
         baseFilenameOf filePath documentPath
           = last (split_js SLASH (map (\<lambda>c. if c = BACKSLASH then SLASH else c) filePath)) \<and>
         (\<not> truthy outputRoot \<and> folderPartsOf filePath documentPath = [] \<longrightarrow>
            buildOutputLocation filePath documentPath outputRoot outputDirectory =
              Inr \<lparr>directory = outputDirectory,
                   filename = baseFilenameOf filePath documentPath\<rparr>) \<and>
         (\<not> truthy outputRoot \<and> folderPartsOf filePath documentPath \<noteq> [] \<longrightarrow>
            buildOutputLocation filePath documentPath outputRoot outputDirectory =
              Inr \<lparr>directory = outputDirectory,
                   filename = finalFilenameOf
                     (join_js ''-'' (folderPartsOf filePath documentPath) @ ''-'')
                     (baseFilenameOf filePath documentPath)\<rparr>) \<and>
         (outputRoot = Some r \<and> r \<noteq> [] \<and>
          (folderPartsOf filePath documentPath = [] \<or>
           hd (folderPartsOf filePath documentPath) = r) \<longrightarrow>
            buildOutputLocation filePath documentPath outputRoot outputDirectory =
              Inr \<lparr>directory = path_join outputDirectory r,
                   filename = finalFilenameOf (r @ ''-'')
                     (baseFilenameOf filePath documentPath)\<rparr>) \<and>
         (outputRoot = Some r \<and> r \<noteq> [] \<and> folderPartsOf filePath documentPath \<noteq> [] \<and>
          hd (folderPartsOf filePath documentPath) \<noteq> r \<longrightarrow>
            buildOutputLocation filePath documentPath outputRoot outputDirectory =
              Inr \<lparr>directory = path_join outputDirectory r,
                   filename = finalFilenameOf
                     (join_js ''-'' (r # folderPartsOf filePath documentPath) @ ''-'')
                     (baseFilenameOf filePath documentPath)\<rparr>)"
proof -
  let ?N = "map (\<lambda>c. if c = BACKSLASH then SLASH else c) filePath"
  let ?parts = "folderPartsOf filePath documentPath"
  let ?base = "baseFilenameOf filePath documentPath"
  have n: "normalizedOf filePath = ?N" by (rule normalizedOf_map)
  with assms have "\<not> startsWith (normalizedOf filePath) (documentPath @ ''/'')" by simp
  then have "relativePathOf filePath documentPath = normalizedOf filePath"
    by (rule relativePathOf_fallback)
  with n have 1: "relativePathOf filePath documentPath = ?N" by simp
  from 1 have 2: "?parts = butlast (split_js SLASH ?N)" by (simp add: folderPartsOf_def)
  from 1 have 3: "?base = last (split_js SLASH ?N)" by (simp add: baseFilenameOf_def)
  have 4: "\<not> truthy outputRoot \<and> ?parts = [] \<longrightarrow>
            buildOutputLocation filePath documentPath outputRoot outputDirectory =
              Inr \<lparr>directory = outputDirectory, filename = ?base\<rparr>"
    by (simp add: buildOutputLocation_eq prefixPartsOf_falsy directoryOf_falsy
          folderPrefixOf_def finalFilenameOf_def startsWith_def)
  have 5: "\<not> truthy outputRoot \<and> ?parts \<noteq> [] \<longrightarrow>
            buildOutputLocation filePath documentPath outputRoot outputDirectory =
              Inr \<lparr>directory = outputDirectory,
                   filename = finalFilenameOf (join_js ''-'' ?parts @ ''-'') ?base\<rparr>"
    by (simp add: buildOutputLocation_eq prefixPartsOf_falsy directoryOf_falsy folderPrefixOf_def)
  have 6: "outputRoot = Some r \<and> r \<noteq> [] \<and> (?parts = [] \<or> hd ?parts = r) \<longrightarrow>
            buildOutputLocation filePath documentPath outputRoot outputDirectory =
              Inr \<lparr>directory = path_join outputDirectory r,
                   filename = finalFilenameOf (r @ ''-'') ?base\<rparr>"
  proof
    assume h: "outputRoot = Some r \<and> r \<noteq> [] \<and> (?parts = [] \<or> hd ?parts = r)"
    then have "prefixPartsOf (Some r) ?parts = [r]"
      by (cases "?parts = []") (simp_all add: prefixPartsOf_no_parts prefixPartsOf_first_is_root)
    with h show "buildOutputLocation filePath documentPath outputRoot outputDirectory =
              Inr \<lparr>directory = path_join outputDirectory r,
                   filename = finalFilenameOf (r @ ''-'') ?base\<rparr>"
      by (simp add: buildOutputLocation_eq folderPrefixOf_def directoryOf_def)
  qed
  have 7: "outputRoot = Some r \<and> r \<noteq> [] \<and> ?parts \<noteq> [] \<and> hd ?parts \<noteq> r \<longrightarrow>
            buildOutputLocation filePath documentPath outputRoot outputDirectory =
              Inr \<lparr>directory = path_join outputDirectory r,
                   filename = finalFilenameOf (join_js ''-'' (r # ?parts) @ ''-'') ?base\<rparr>"
    by (simp add: buildOutputLocation_eq prefixPartsOf_first_not_root folderPrefixOf_def
          directoryOf_def)
  from 1 2 3 4 5 6 7 show ?thesis by blast
qed

theorem buildOutputLocation_fallback_witness:
  "\<not> startsWith (''other/api/guide.md'') (''docs'' @ ''/'') \<and>
   relativePathOf (''other'' @ BACKSLASH # ''api'' @ BACKSLASH # ''guide.md'') ''docs''
     = ''other/api/guide.md'' \<and>
   buildOutputLocation (''other'' @ BACKSLASH # ''api'' @ BACKSLASH # ''guide.md'') ''docs''
       (Some ''code'') ''./output'' =
     Inr \<lparr>directory = ''output/code'', filename = ''code-other-api-guide.md''\<rparr> \<and>
   buildOutputLocation (''other'' @ BACKSLASH # ''guide.md'') ''docs'' None ''./output'' =
     Inr \<lparr>directory = ''./output'', filename = ''other-guide.md''\<rparr> \<and>
   buildOutputLocation (''code'' @ BACKSLASH # ''guide.md'') ''docs'' (Some ''code'') ''./output'' =
     Inr \<lparr>directory = ''output/code'', filename = ''code-guide.md''\<rparr> \<and>
   buildOutputLocation ''guide.md'' ''docs'' None ''./output'' =
     Inr \<lparr>directory = ''./output'', filename = ''guide.md''\<rparr>"
proof -
  have j: "path_join ''./output'' ''code'' = ''output/code''"
    by (simp add: path_join_def path_normalize_def normalizeString_def)
  have h1: "\<not> startsWith (map (\<lambda>c. if c = BACKSLASH then SLASH else c)
               (''other'' @ BACKSLASH # ''api'' @ BACKSLASH # ''guide.md'')) (''docs'' @ ''/'')"
    by (simp add: startsWith_def)
  have h2: "\<not> startsWith (map (\<lambda>c. if c = BACKSLASH then SLASH else c)
               (''other'' @ BACKSLASH # ''guide.md'')) (''docs'' @ ''/'')"
    by (simp add: startsWith_def)
  have h3: "\<not> startsWith (map (\<lambda>c. if c = BACKSLASH then SLASH else c)
               (''code'' @ BACKSLASH # ''guide.md'')) (''docs'' @ ''/'')"
    by (simp add: startsWith_def)
  have h4: "\<not> startsWith (map (\<lambda>c. if c = BACKSLASH then SLASH else c) ''guide.md'')
               (''docs'' @ ''/'')"
    by (simp add: startsWith_def)
  have 0: "\<not> startsWith (''other/api/guide.md'') (''docs'' @ ''/'')"
    by (simp add: startsWith_def)
  have 1: "relativePathOf (''other'' @ BACKSLASH # ''api'' @ BACKSLASH # ''guide.md'') ''docs''
     = ''other/api/guide.md''"
    using buildOutputLocation_fallback [OF h1] by simp
  have 2: "buildOutputLocation (''other'' @ BACKSLASH # ''api'' @ BACKSLASH # ''guide.md'') ''docs''
       (Some ''code'') ''./output'' =
     Inr \<lparr>directory = ''output/code'', filename = ''code-other-api-guide.md''\<rparr>"
    using buildOutputLocation_fallback [OF h1, where outputRoot = "Some ''code''"
            and r = "''code''" and outputDirectory = "''./output''"] j
    by (simp add: finalFilenameOf_def startsWith_def)
  have 3: "buildOutputLocation (''other'' @ BACKSLASH # ''guide.md'') ''docs'' None ''./output'' =
     Inr \<lparr>directory = ''./output'', filename = ''other-guide.md''\<rparr>"
    using buildOutputLocation_fallback [OF h2, where outputRoot = None
            and outputDirectory = "''./output''"]
    by (simp add: finalFilenameOf_def startsWith_def truthy_def)
  have 4: "buildOutputLocation (''code'' @ BACKSLASH # ''guide.md'') ''docs'' (Some ''code'') ''./output'' =
     Inr \<lparr>directory = ''output/code'', filename = ''code-guide.md''\<rparr>"
    using buildOutputLocation_fallback [OF h3, where outputRoot = "Some ''code''"
            and r = "''code''" and outputDirectory = "''./output''"] j
    by (simp add: finalFilenameOf_def startsWith_def)
  have 5: "buildOutputLocation ''guide.md'' ''docs'' None ''./output'' =
     Inr \<lparr>directory = ''./output'', filename = ''guide.md''\<rparr>"
    using buildOutputLocation_fallback [OF h4, where outputRoot = None
            and outputDirectory = "''./output''"]
    by (simp add: truthy_def)
  from 0 1 2 3 4 5 show ?thesis by blast
qed

section \<open>The output root and the first folder part\<close>

text \<open>
  Claim C5. With an output root present (a non-empty string, as the code's truthiness
  test reads it) and non-empty folder parts: when the first folder part equals the output
  root, the folder parts are not pushed, the prefix list is the root alone and the
  filename is prefixed by the root once. The comparison looks at the first folder part
  only: when that one differs from the root, all folder parts are pushed after the root,
  whatever the later parts are.
\<close>

theorem buildOutputLocation_root_not_duplicated:
  "(r \<noteq> [] \<and> folderPartsOf filePath documentPath \<noteq> [] \<and>
    hd (folderPartsOf filePath documentPath) = r \<longrightarrow>
      prefixPartsOf (Some r) (folderPartsOf filePath documentPath) = [r] \<and>
      buildOutputLocation filePath documentPath (Some r) outputDirectory =
        Inr \<lparr>directory = path_join outputDirectory r,
             filename = finalFilenameOf (r @ ''-'') (baseFilenameOf filePath documentPath)\<rparr>) \<and>
   (r \<noteq> [] \<and> folderPartsOf filePath documentPath \<noteq> [] \<and>
    hd (folderPartsOf filePath documentPath) \<noteq> r \<longrightarrow>
      prefixPartsOf (Some r) (folderPartsOf filePath documentPath)
        = r # folderPartsOf filePath documentPath \<and>
      buildOutputLocation filePath documentPath (Some r) outputDirectory =
        Inr \<lparr>directory = path_join outputDirectory r,
             filename = finalFilenameOf
                          (join_js ''-'' (r # folderPartsOf filePath documentPath) @ ''-'')
                          (baseFilenameOf filePath documentPath)\<rparr>)"
  by (simp add: buildOutputLocation_eq prefixPartsOf_first_is_root prefixPartsOf_first_not_root
        folderPrefixOf_def directoryOf_def)

text \<open>The definitions to unfold when a call is evaluated on literal strings.\<close>

lemmas build_eval =
  folderPartsOf_def baseFilenameOf_def relativePathOf_def normalizedOf_def replaceAll_js_def
  startsWith_def finalFilenameOf_def

theorem buildOutputLocation_root_not_duplicated_witness:
  "buildOutputLocation ''docs/code/api.md'' ''docs'' (Some ''code'') ''out'' =
     Inr \<lparr>directory = path_join ''out'' ''code'', filename = ''code-api.md''\<rparr> \<and>
   buildOutputLocation ''docs/code/sub/api.md'' ''docs'' (Some ''code'') ''out'' =
     Inr \<lparr>directory = path_join ''out'' ''code'', filename = ''code-api.md''\<rparr> \<and>
   buildOutputLocation ''docs/api/code/x.md'' ''docs'' (Some ''code'') ''out'' =
     Inr \<lparr>directory = path_join ''out'' ''code'', filename = ''code-api-code-x.md''\<rparr>"
proof -
  have 1: "buildOutputLocation ''docs/code/api.md'' ''docs'' (Some ''code'') ''out'' =
     Inr \<lparr>directory = path_join ''out'' ''code'', filename = ''code-api.md''\<rparr>"
    using buildOutputLocation_root_not_duplicated
            [of "''code''" "''docs/code/api.md''" "''docs''" "''out''"]
    by (simp add: build_eval)
  have 2: "buildOutputLocation ''docs/code/sub/api.md'' ''docs'' (Some ''code'') ''out'' =
     Inr \<lparr>directory = path_join ''out'' ''code'', filename = ''code-api.md''\<rparr>"
    using buildOutputLocation_root_not_duplicated
            [of "''code''" "''docs/code/sub/api.md''" "''docs''" "''out''"]
    by (simp add: build_eval)
  have 3: "buildOutputLocation ''docs/api/code/x.md'' ''docs'' (Some ''code'') ''out'' =
     Inr \<lparr>directory = path_join ''out'' ''code'', filename = ''code-api-code-x.md''\<rparr>"
    using buildOutputLocation_root_not_duplicated
            [of "''code''" "''docs/api/code/x.md''" "''docs''" "''out''"]
    by (simp add: build_eval)
  from 1 2 3 show ?thesis by blast
qed

section \<open>The prefix test on the filename\<close>

lemma startsWith_append: "startsWith (p @ s) p"
  by (simp add: startsWith_def)

lemma finalFilenameOf_startsWith: "startsWith (finalFilenameOf p f) p"
  by (simp add: finalFilenameOf_def startsWith_append)

lemma finalFilenameOf_idem: "finalFilenameOf p (finalFilenameOf p f) = finalFilenameOf p f"
  using finalFilenameOf_startsWith [of p f] by (simp add: finalFilenameOf_def)

text \<open>
  Claim C4. The filename step is idempotent: the filename that a call of
  \<open>buildOutputLocation\<close> produces, taken as the base filename under the same folder
  prefix (same documentation path, output root and folder parts), comes back unchanged,
  with no prefix added again. So a second call on a file with the same folder parts,
  whose base filename is the filename the first call produced, returns the location of
  the first call. The same holds of the step for any prefix and any base filename.
\<close>

theorem buildOutputLocation_filename_idempotent:
  "(buildOutputLocation filePath documentPath outputRoot outputDirectory = Inr loc \<longrightarrow>
     finalFilenameOf (folderPrefixOf (prefixPartsOf outputRoot (folderPartsOf filePath documentPath)))
       (filename loc) = filename loc) \<and>
   (buildOutputLocation filePath documentPath outputRoot outputDirectory = Inr loc \<and>
    folderPartsOf filePath' documentPath = folderPartsOf filePath documentPath \<and>
    baseFilenameOf filePath' documentPath = filename loc \<longrightarrow>
     buildOutputLocation filePath' documentPath outputRoot outputDirectory = Inr loc) \<and>
   finalFilenameOf folderPrefix (finalFilenameOf folderPrefix base)
     = finalFilenameOf folderPrefix base"
proof -
  let ?pfx = "folderPrefixOf (prefixPartsOf outputRoot (folderPartsOf filePath documentPath))"
  have step: "finalFilenameOf folderPrefix (finalFilenameOf folderPrefix base)
     = finalFilenameOf folderPrefix base"
    by (rule finalFilenameOf_idem)
  have 1: "buildOutputLocation filePath documentPath outputRoot outputDirectory = Inr loc \<longrightarrow>
     finalFilenameOf ?pfx (filename loc) = filename loc"
    by (auto simp: buildOutputLocation_eq finalFilenameOf_idem)
  have 2: "buildOutputLocation filePath documentPath outputRoot outputDirectory = Inr loc \<and>
    folderPartsOf filePath' documentPath = folderPartsOf filePath documentPath \<and>
    baseFilenameOf filePath' documentPath = filename loc \<longrightarrow>
     buildOutputLocation filePath' documentPath outputRoot outputDirectory = Inr loc"
  proof
    assume h: "buildOutputLocation filePath documentPath outputRoot outputDirectory = Inr loc \<and>
      folderPartsOf filePath' documentPath = folderPartsOf filePath documentPath \<and>
      baseFilenameOf filePath' documentPath = filename loc"
    then have loc: "loc = \<lparr>directory = directoryOf outputRoot outputDirectory,
          filename = finalFilenameOf ?pfx (baseFilenameOf filePath documentPath)\<rparr>"
      by (simp add: buildOutputLocation_eq)
    have "buildOutputLocation filePath' documentPath outputRoot outputDirectory =
       Inr \<lparr>directory = directoryOf outputRoot outputDirectory,
            filename = finalFilenameOf ?pfx (filename loc)\<rparr>"
      using h by (simp add: buildOutputLocation_eq)
    also have "finalFilenameOf ?pfx (filename loc) = filename loc"
      using loc by (simp add: finalFilenameOf_idem)
    finally show "buildOutputLocation filePath' documentPath outputRoot outputDirectory = Inr loc"
      using loc by simp
  qed
  from 1 2 step show ?thesis by blast
qed

theorem buildOutputLocation_filename_idempotent_witness:
  "buildOutputLocation ''docs/code/api.md'' ''docs/code'' (Some ''code'') ''out'' =
     Inr \<lparr>directory = ''out/code'', filename = ''code-api.md''\<rparr> \<and>
   finalFilenameOf ''code-'' ''code-api.md'' = ''code-api.md'' \<and>
   buildOutputLocation ''docs/code/code-api.md'' ''docs/code'' (Some ''code'') ''out'' =
     Inr \<lparr>directory = ''out/code'', filename = ''code-api.md''\<rparr>"
proof -
  have b: "buildOutputLocation ''docs/code/api.md'' ''docs/code'' (Some ''code'') ''out'' =
     Inr \<lparr>directory = ''out/code'', filename = ''code-api.md''\<rparr>"
    by (simp add: buildOutputLocation_eq build_eval prefixPartsOf_def truthy_def
          folderPrefixOf_def directoryOf_def path_join_def path_normalize_def normalizeString_def)
  show ?thesis
    using b buildOutputLocation_filename_idempotent
            [where filePath = "''docs/code/api.md''" and documentPath = "''docs/code''"
               and outputRoot = "Some ''code''" and outputDirectory = "''out''"
               and loc = "\<lparr>directory = ''out/code'', filename = ''code-api.md''\<rparr>"
               and filePath' = "''docs/code/code-api.md''"]
    by (simp add: build_eval prefixPartsOf_def truthy_def folderPrefixOf_def)
qed

section \<open>Path separators in the filename\<close>

lemma split_js_pieces_subset: "x \<in> set (split_js c s) \<Longrightarrow> set x \<subseteq> set s"
proof -
  assume "x \<in> set (split_js c s)"
  then have "set x \<subseteq> set (concat (split_js c s))" by auto
  then show ?thesis by (auto simp: concat_split_js)
qed

lemma normalizedOf_no_backslash: "BACKSLASH \<notin> set (normalizedOf filePath)"
  by (auto simp: normalizedOf_def replaceAll_js_def)

lemma relativePathOf_no_backslash: "BACKSLASH \<notin> set (relativePathOf filePath documentPath)"
  using normalizedOf_no_backslash [of filePath]
  by (auto simp: relativePathOf_def Let_def dest: in_set_dropD)

lemma piece_no_separator:
  assumes "x \<in> set (split_js SLASH (relativePathOf filePath documentPath))"
  shows "no_separator x"
proof -
  have "SLASH \<notin> set x" using assms by (rule split_js_pieces_no_sep)
  moreover have "BACKSLASH \<notin> set x"
    using split_js_pieces_subset [OF assms] relativePathOf_no_backslash [of filePath documentPath]
    by blast
  ultimately show ?thesis by (simp add: no_separator_def)
qed

lemma baseFilenameOf_no_separator: "no_separator (baseFilenameOf filePath documentPath)"
  unfolding baseFilenameOf_def
  by (rule piece_no_separator [of _ filePath documentPath]) (simp add: split_js_not_Nil)

lemma folderPartsOf_no_separator:
  "x \<in> set (folderPartsOf filePath documentPath) \<Longrightarrow> no_separator x"
  unfolding folderPartsOf_def
  by (rule piece_no_separator [of _ filePath documentPath]) (rule in_set_butlastD)

lemma no_separator_append: "no_separator (a @ b) \<longleftrightarrow> no_separator a \<and> no_separator b"
  by (auto simp: no_separator_def)

lemma join_js_no_separator:
  "\<forall>x \<in> set xs. no_separator x \<Longrightarrow> no_separator (join_js ''-'' xs)"
  by (induction "''-''" xs rule: join_js.induct)
     (auto simp: no_separator_append, auto simp: no_separator_def)

lemma folderPrefixOf_no_separator:
  "\<forall>x \<in> set xs. no_separator x \<Longrightarrow> no_separator (folderPrefixOf xs)"
  using join_js_no_separator [of xs]
  by (auto simp: folderPrefixOf_def no_separator_append, auto simp: no_separator_def)

lemma prefixPartsOf_members:
  "x \<in> set (prefixPartsOf outputRoot parts) \<Longrightarrow> outputRoot = Some x \<or> x \<in> set parts"
  by (auto simp: prefixPartsOf_def Let_def split: option.splits if_splits)

lemma finalFilenameOf_no_separator:
  "no_separator p \<Longrightarrow> no_separator f \<Longrightarrow> no_separator (finalFilenameOf p f)"
  by (simp add: finalFilenameOf_def no_separator_append)

text \<open>
  An output root that \<open>computeOutputRoot\<close> computed never contains a slash: it is a
  segment, or two segments joined by a hyphen. (It can contain a backslash.)
\<close>

lemma join_js_no_slash:
  "\<forall>x \<in> set xs. SLASH \<notin> set x \<Longrightarrow> SLASH \<notin> set (join_js ''-'' xs)"
  by (induction "''-''" xs rule: join_js.induct) auto

lemma segments_of_no_slash_inside: "x \<in> set (segments_of p) \<Longrightarrow> SLASH \<notin> set x"
  by (auto simp: segments_of_def dest: split_js_pieces_no_sep)

lemma computeOutputRoot_no_slash:
  assumes "computeOutputRoot p = Some r"
  shows "SLASH \<notin> set r"
proof -
  have seg: "\<forall>x \<in> set (segments_of p). SLASH \<notin> set x"
    using segments_of_no_slash_inside by blast
  have hd_ok: "length xs = 1 \<Longrightarrow> set xs \<subseteq> set (segments_of p) \<Longrightarrow> SLASH \<notin> set (hd xs)" for xs
    using seg by (cases xs) auto
  have j: "set xs \<subseteq> set (segments_of p) \<Longrightarrow> SLASH \<notin> set (join_js ''-'' (slice_last2 xs))" for xs
  proof -
    assume "set xs \<subseteq> set (segments_of p)"
    then have "\<forall>x \<in> set (slice_last2 xs). SLASH \<notin> set x"
      using seg by (auto simp: slice_last2_def dest: in_set_dropD)
    then show ?thesis by (rule join_js_no_slash)
  qed
  have d: "set (drop 1 (segments_of p)) \<subseteq> set (segments_of p)"
    by (rule set_drop_subset)
  show ?thesis
    using assms hd_ok [of "segments_of p"] hd_ok [of "drop 1 (segments_of p)"]
          j [of "segments_of p"] j [of "drop 1 (segments_of p)"] d
    by (auto simp: computeOutputRoot_def Let_def split: if_splits)
qed

text \<open>
  Claim C3, as stated, fails: the output root is copied into the filename as it is, so
  an output root that contains a slash puts a slash into the filename.
\<close>

theorem buildOutputLocation_filename_separator_counterexample:
  "buildOutputLocation ''docs/guide.md'' ''docs'' (Some ''a/b'') ''out'' =
     Inr \<lparr>directory = ''out/a/b'', filename = ''a/b-guide.md''\<rparr> \<and>
   \<not> no_separator ''a/b-guide.md''"
  by (simp add: buildOutputLocation_eq build_eval prefixPartsOf_def truthy_def
        folderPrefixOf_def directoryOf_def path_join_def path_normalize_def normalizeString_def
        no_separator_def)

text \<open>
  Claim C3, amended. For every file path, documentation path and base output directory,
  and every output root that is absent or contains neither a slash nor a backslash,
  \<open>buildOutputLocation\<close> returns a location whose filename contains neither a slash nor
  a backslash.
\<close>

theorem buildOutputLocation_filename_no_separator:
  assumes "outputRoot = None \<or> (\<exists>r. outputRoot = Some r \<and> no_separator r)"
  shows "\<exists>loc. buildOutputLocation filePath documentPath outputRoot outputDirectory = Inr loc \<and>
           no_separator (filename loc)"
proof -
  have "\<forall>x \<in> set (prefixPartsOf outputRoot (folderPartsOf filePath documentPath)). no_separator x"
  proof
    fix x
    assume "x \<in> set (prefixPartsOf outputRoot (folderPartsOf filePath documentPath))"
    then have "outputRoot = Some x \<or> x \<in> set (folderPartsOf filePath documentPath)"
      by (rule prefixPartsOf_members)
    then show "no_separator x"
      using assms folderPartsOf_no_separator by auto
  qed
  then have "no_separator
      (folderPrefixOf (prefixPartsOf outputRoot (folderPartsOf filePath documentPath)))"
    by (rule folderPrefixOf_no_separator)
  then have "no_separator (finalFilenameOf
      (folderPrefixOf (prefixPartsOf outputRoot (folderPartsOf filePath documentPath)))
      (baseFilenameOf filePath documentPath))"
    using baseFilenameOf_no_separator by (rule finalFilenameOf_no_separator)
  then show ?thesis by (simp add: buildOutputLocation_eq)
qed

theorem buildOutputLocation_filename_no_separator_witness:
  "no_separator ''code'' \<and>
   (\<exists>loc. buildOutputLocation (''docs'' @ BACKSLASH # ''code'' @ BACKSLASH # ''api/hooks.md'')
            ''docs/code'' (Some ''code'') ''./output'' = Inr loc \<and>
          no_separator (filename loc))"
proof -
  have h: "no_separator ''code''" by (simp add: no_separator_def)
  then have "Some ''code'' = None \<or> (\<exists>r. Some ''code'' = Some r \<and> no_separator r)" by simp
  from h buildOutputLocation_filename_no_separator [OF this] show ?thesis by blast
qed

section \<open>The documented scenarios\<close>

text \<open>More definitions to unfold when a call is evaluated on literal strings.\<close>

lemmas dir_eval = directoryOf_def path_join_def path_normalize_def normalizeString_def

lemmas name_eval = build_eval prefixPartsOf_def truthy_def folderPrefixOf_def

text \<open>
  Claim C2, as stated, fails on the directory: with the output root \<open>code\<close> and the base
  \<open>./output\<close> the directory is \<open>path.join('./output', 'code')\<close>, and \<open>path.join\<close>
  normalises its result, which drops the leading \<open>./\<close>.
\<close>

theorem buildOutputLocation_directory_counterexample:
  "buildOutputLocation ''docs/code/api.md'' ''docs/code'' (Some ''code'') ''./output'' \<noteq>
     Inr \<lparr>directory = ''./output/code'', filename = ''code-api.md''\<rparr>"
  by (simp add: buildOutputLocation_eq dir_eval)

text \<open>
  Claim C2, amended. \<open>buildOutputLocation\<close> returns the filenames of the documented
  scenarios literally. The directory is the base output directory itself when the output
  root is absent (\<open>./output\<close> in the scenarios) and \<open>path.join\<close> of the base output
  directory and the output root when it is present, which for \<open>./output\<close> and \<open>code\<close>
  is \<open>output/code\<close>.
\<close>

theorem buildOutputLocation_scenarios:
  "buildOutputLocation ''docs/guide.md'' ''docs'' None ''./output'' =
     Inr \<lparr>directory = ''./output'', filename = ''guide.md''\<rparr> \<and>
   buildOutputLocation ''docs/api/getting-started.mdx'' ''docs'' None ''./output'' =
     Inr \<lparr>directory = ''./output'', filename = ''api-getting-started.mdx''\<rparr> \<and>
   buildOutputLocation ''docs/code/api.md'' ''docs/code'' (Some ''code'') ''./output'' =
     Inr \<lparr>directory = ''output/code'', filename = ''code-api.md''\<rparr> \<and>
   buildOutputLocation ''docs/code/api/api.md'' ''docs/code'' (Some ''code'') ''./output'' =
     Inr \<lparr>directory = ''output/code'', filename = ''code-api-api.md''\<rparr> \<and>
   buildOutputLocation
       (''docs'' @ BACKSLASH # ''code'' @ BACKSLASH # ''api'' @ BACKSLASH # ''hooks.md'')
       ''docs/code'' (Some ''code'') ''./output'' =
     Inr \<lparr>directory = ''output/code'', filename = ''code-api-hooks.md''\<rparr> \<and>
   buildOutputLocation ''docs/code/code-api.md'' ''docs/code'' (Some ''code'') ''./output'' =
     Inr \<lparr>directory = ''output/code'', filename = ''code-api.md''\<rparr> \<and>
   buildOutputLocation filePath documentPath None outputDirectory =
     Inr \<lparr>directory = outputDirectory,
          filename = finalFilenameOf (folderPrefixOf (folderPartsOf filePath documentPath))
                       (baseFilenameOf filePath documentPath)\<rparr> \<and>
   (r \<noteq> [] \<longrightarrow>
      buildOutputLocation filePath documentPath (Some r) outputDirectory =
        Inr \<lparr>directory = path_join outputDirectory r,
             filename = finalFilenameOf
                          (folderPrefixOf (prefixPartsOf (Some r) (folderPartsOf filePath documentPath)))
                          (baseFilenameOf filePath documentPath)\<rparr>) \<and>
   path_join ''./output'' ''code'' = ''output/code''"
proof -
  have 1: "buildOutputLocation ''docs/guide.md'' ''docs'' None ''./output'' =
     Inr \<lparr>directory = ''./output'', filename = ''guide.md''\<rparr>"
    by (simp add: buildOutputLocation_eq name_eval directoryOf_def)
  have 2: "buildOutputLocation ''docs/api/getting-started.mdx'' ''docs'' None ''./output'' =
     Inr \<lparr>directory = ''./output'', filename = ''api-getting-started.mdx''\<rparr>"
    by (simp add: buildOutputLocation_eq name_eval directoryOf_def)
  have d: "directoryOf (Some ''code'') ''./output'' = ''output/code''"
    by (simp add: dir_eval)
  have 3: "buildOutputLocation ''docs/code/api.md'' ''docs/code'' (Some ''code'') ''./output'' =
     Inr \<lparr>directory = ''output/code'', filename = ''code-api.md''\<rparr>"
    by (simp add: buildOutputLocation_eq name_eval d)
  have 4: "buildOutputLocation ''docs/code/api/api.md'' ''docs/code'' (Some ''code'') ''./output'' =
     Inr \<lparr>directory = ''output/code'', filename = ''code-api-api.md''\<rparr>"
    by (simp add: buildOutputLocation_eq name_eval d)
  have 5: "buildOutputLocation
       (''docs'' @ BACKSLASH # ''code'' @ BACKSLASH # ''api'' @ BACKSLASH # ''hooks.md'')
       ''docs/code'' (Some ''code'') ''./output'' =
     Inr \<lparr>directory = ''output/code'', filename = ''code-api-hooks.md''\<rparr>"
    by (simp add: buildOutputLocation_eq name_eval d)
  have 6: "buildOutputLocation ''docs/code/code-api.md'' ''docs/code'' (Some ''code'') ''./output'' =
     Inr \<lparr>directory = ''output/code'', filename = ''code-api.md''\<rparr>"
    by (simp add: buildOutputLocation_eq name_eval d)
  have 7: "buildOutputLocation filePath documentPath None outputDirectory =
     Inr \<lparr>directory = outputDirectory,
          filename = finalFilenameOf (folderPrefixOf (folderPartsOf filePath documentPath))
                       (baseFilenameOf filePath documentPath)\<rparr>"
    by (simp add: buildOutputLocation_eq prefixPartsOf_None directoryOf_def)
  have 8: "r \<noteq> [] \<longrightarrow>
      buildOutputLocation filePath documentPath (Some r) outputDirectory =
        Inr \<lparr>directory = path_join outputDirectory r,
             filename = finalFilenameOf
                          (folderPrefixOf (prefixPartsOf (Some r) (folderPartsOf filePath documentPath)))
                          (baseFilenameOf filePath documentPath)\<rparr>"
    by (simp add: buildOutputLocation_eq directoryOf_def)
  have 9: "path_join ''./output'' ''code'' = ''output/code''"
    using d by (simp add: directoryOf_def)
  from 1 2 3 4 5 6 7 8 9 show ?thesis by blast
qed

theorem buildOutputLocation_scenarios_witness:
  "buildOutputLocation ''packages/react/docs/react-api/hooks.md'' ''packages/react/docs''
       (Some ''react-docs'') ''./output'' =
     Inr \<lparr>directory = ''output/react-docs'', filename = ''react-docs-react-api-hooks.md''\<rparr>"
  using buildOutputLocation_scenarios
          [where r = "''react-docs''" and filePath = "''packages/react/docs/react-api/hooks.md''"
             and documentPath = "''packages/react/docs''" and outputDirectory = "''./output''"]
  by (simp add: name_eval dir_eval)

end
